theory Spec2Isabelle
  imports
    Complex_Main
    "HOL-Library.Char_ord"
    "HOL-Library.List_Lexorder"
    "HOL-Library.RBT"
    "HOL-Library.Word"
begin

section \<open>The statistics and result layer of libvmaf.cpp\<close>

text \<open>
  The development embeds \<^verbatim>\<open>src/wrapper/src/libvmaf.cpp\<close>: the sample collector
  \<^verbatim>\<open>StatVector\<close>, the result container \<^verbatim>\<open>Result\<close>, the runner factory and the
  C entry point \<^verbatim>\<open>compute_vmaf\<close>.

  Conventions of the embedding.
  \<^item> A finite \<^verbatim>\<open>double\<close> is a real number and arithmetic on finite values is exact:
    rounding, overflow of the exponent range and signed zeros are not represented.  The
    samples of a series are finite (no NaN, no infinity is stored).
  \<^item> The one way in which exact arithmetic on finite samples leaves the finite values is a
    division by zero (and a square root of a negative number).  Where the source can do
    that, the result has the type \<open>double\<close> below, which adds the IEEE special values.
  \<^item> A C++ exception is a value of \<open>cpp_exception\<close>; a function that can throw returns
    \<open>cpp_exception + 'a\<close>, with \<open>Inl\<close> for the exception thrown.
  \<^item> \<^verbatim>\<open>int\<close> has 32 bits; \<^verbatim>\<open>size_t\<close> values are natural numbers.
\<close>

subsection \<open>Exceptions and doubles\<close>

text \<open>
  The thrown object is classified by the first handler of \<^verbatim>\<open>compute_vmaf\<close> that would
  match its dynamic type: \<^verbatim>\<open>VmafException\<close>, else \<^verbatim>\<open>std::runtime_error\<close>, else
  \<^verbatim>\<open>std::logic_error\<close> (derived classes included), else any other type (for example
  \<^verbatim>\<open>std::bad_alloc\<close>).  The string is the text of \<^verbatim>\<open>what()\<close>.
\<close>

datatype cpp_exception =
    VmafException string
  | Runtime_error string
  | Logic_error string
  | Other_exception string

datatype double = Finite real | PosInf | NegInf | NaN

fun dneg :: "double \<Rightarrow> double" where
  "dneg (Finite a) = Finite (- a)"
| "dneg PosInf = NegInf"
| "dneg NegInf = PosInf"
| "dneg NaN = NaN"

fun dadd :: "double \<Rightarrow> double \<Rightarrow> double" where
  "dadd (Finite a) (Finite b) = Finite (a + b)"
| "dadd NaN _ = NaN"
| "dadd _ NaN = NaN"
| "dadd PosInf NegInf = NaN"
| "dadd NegInf PosInf = NaN"
| "dadd PosInf _ = PosInf"
| "dadd _ PosInf = PosInf"
| "dadd NegInf _ = NegInf"
| "dadd _ NegInf = NegInf"

definition dsub :: "double \<Rightarrow> double \<Rightarrow> double" where
  "dsub a b = dadd a (dneg b)"

text \<open>
  Division.  A zero divisor is taken as \<open>+0\<close>: the divisors of the source that can be
  zero are \<open>e + 1.0\<close> and the average of a sum started at \<open>0.0\<close>, and in exact
  arithmetic neither is ever \<open>-0\<close>.
\<close>

fun ddiv :: "double \<Rightarrow> double \<Rightarrow> double" where
  "ddiv (Finite a) (Finite b) =
     (if b = 0 then (if a = 0 then NaN else if 0 < a then PosInf else NegInf)
      else Finite (a / b))"
| "ddiv NaN _ = NaN"
| "ddiv _ NaN = NaN"
| "ddiv (Finite a) _ = Finite 0"
| "ddiv PosInf (Finite b) = (if 0 \<le> b then PosInf else NegInf)"
| "ddiv NegInf (Finite b) = (if 0 \<le> b then NegInf else PosInf)"
| "ddiv _ _ = NaN"

definition dsqrt :: "real \<Rightarrow> double" where
  "dsqrt x = (if x < 0 then NaN else Finite (sqrt x))"

subsection \<open>StatVector\<close>

record StatVector =
  l :: "real list"

text \<open>The two constructors, \<^verbatim>\<open>getVector\<close>, \<^verbatim>\<open>append\<close> and \<^verbatim>\<open>size\<close>.\<close>

definition StatVector_empty :: StatVector where
  "StatVector_empty = \<lparr>l = []\<rparr>"

definition StatVector_of :: "real list \<Rightarrow> StatVector" where
  "StatVector_of v = \<lparr>l = v\<rparr>"

definition getVector :: "StatVector \<Rightarrow> real list" where
  "getVector this = l this"

definition append_sv :: "StatVector \<Rightarrow> real \<Rightarrow> StatVector" where
  "append_sv this e = this\<lparr>l := l this @ [e]\<rparr>"

definition size_sv :: "StatVector \<Rightarrow> nat" where
  "size_sv this = length (l this)"

definition assert_size :: "StatVector \<Rightarrow> cpp_exception + unit" where
  "assert_size this =
     (if size_sv this = 0 then Inl (Runtime_error ''StatVector size is 0.'') else Inr ())"

definition mean :: "StatVector \<Rightarrow> cpp_exception + real" where
  "mean this =
     (case assert_size this of
        Inl ex \<Rightarrow> Inl ex
      | Inr _ \<Rightarrow> Inr (fold (\<lambda>e sum. sum + e) (l this) 0 / real (size_sv this)))"

definition minimum :: "StatVector \<Rightarrow> cpp_exception + real" where
  "minimum this =
     (case assert_size this of
        Inl ex \<Rightarrow> Inl ex
      | Inr _ \<Rightarrow> Inr (fold (\<lambda>e min'. if e < min' then e else min') (l this) (l this ! 0)))"

definition harmonic_mean :: "StatVector \<Rightarrow> cpp_exception + double" where
  "harmonic_mean this =
     (case assert_size this of
        Inl ex \<Rightarrow> Inl ex
      | Inr _ \<Rightarrow>
          (let sum = fold (\<lambda>e sum. dadd sum (ddiv (Finite 1) (Finite (e + 1)))) (l this) (Finite 0)
           in Inr (dsub (ddiv (Finite 1) (ddiv sum (Finite (real (size_sv this))))) (Finite 1))))"

definition second_moment :: "StatVector \<Rightarrow> cpp_exception + real" where
  "second_moment this =
     (case assert_size this of
        Inl ex \<Rightarrow> Inl ex
      | Inr _ \<Rightarrow> Inr (fold (\<lambda>e sum. sum + e ^ 2) (l this) 0 / real (size_sv this)))"

text \<open>
  \<^verbatim>\<open>(int)x\<close> on a double truncates towards zero; the conversion is undefined when the
  truncated value is not an \<^verbatim>\<open>int\<close>.  \<open>None\<close> stands for the undefined conversion.
\<close>

definition int_of_double :: "real \<Rightarrow> int option" where
  "int_of_double x =
     (let t = (if 0 \<le> x then \<lfloor>x\<rfloor> else \<lceil>x\<rceil>)
      in if - (2 ^ 31) \<le> t \<and> t < 2 ^ 31 then Some t else None)"

text \<open>
  \<^verbatim>\<open>v[i]\<close> with an \<^verbatim>\<open>int\<close> index on a \<^verbatim>\<open>std::vector\<close>: unchecked, so a read outside the
  vector is undefined (\<open>None\<close>).
\<close>

definition subscript_vec :: "real list \<Rightarrow> int \<Rightarrow> real option" where
  "subscript_vec v i = (if 0 \<le> i \<and> i < int (length v) then Some (v ! nat i) else None)"

datatype failure = Throws cpp_exception | Undefined_behaviour

text \<open>
  \<^verbatim>\<open>percentile\<close> sorts a local copy \<open>l'\<close> of the member; the object it returns beside the
  result is the state of \<^verbatim>\<open>*this\<close> after the call.
\<close>

definition percentile :: "StatVector \<Rightarrow> real \<Rightarrow> (failure + real) \<times> StatVector" where
  "percentile this perc0 =
     (case assert_size this of
        Inl ex \<Rightarrow> (Inl (Throws ex), this)
      | Inr _ \<Rightarrow>
          (let perc = (if perc0 < 0 then 0 else if perc0 > 100 then 100 else perc0);
               l' = sort (l this);
               pos = perc * real (size_sv this - 1) / 100
           in case (int_of_double (of_int \<lfloor>pos\<rfloor>), int_of_double (of_int \<lceil>pos\<rceil>)) of
                (Some pos_left, Some pos_right) \<Rightarrow>
                  (if pos_left = pos_right then
                     (case subscript_vec l' pos_left of
                        Some a \<Rightarrow> (Inr a, this)
                      | None \<Rightarrow> (Inl Undefined_behaviour, this))
                   else
                     (case (subscript_vec l' pos_left, subscript_vec l' pos_right) of
                        (Some a, Some b) \<Rightarrow>
                          (Inr (a * (of_int pos_right - pos) + b * (pos - of_int pos_left)), this)
                      | _ \<Rightarrow> (Inl Undefined_behaviour, this)))
              | _ \<Rightarrow> (Inl Undefined_behaviour, this)))"

definition var :: "StatVector \<Rightarrow> cpp_exception + real" where
  "var this =
     (case second_moment this of
        Inl ex \<Rightarrow> Inl ex
      | Inr m2 \<Rightarrow> (case mean this of Inl ex \<Rightarrow> Inl ex | Inr m \<Rightarrow> Inr (m2 - m ^ 2)))"

definition std :: "StatVector \<Rightarrow> cpp_exception + double" where
  "std this = (case var this of Inl ex \<Rightarrow> Inl ex | Inr v \<Rightarrow> Inr (dsqrt v))"

subsection \<open>Result\<close>

text \<open>
  Modelled from the spec: the enumeration \<^verbatim>\<open>ScoreAggregateMethod\<close> is declared in
  \<^verbatim>\<open>libvmaf.h\<close>, which is not among the sources.  The source names its enumerators
  \<^verbatim>\<open>MEAN\<close>, \<^verbatim>\<open>MINIMUM\<close> and \<^verbatim>\<open>HARMONIC_MEAN\<close>; the spec lists these three and no other.
\<close>

datatype ScoreAggregateMethod = MEAN | HARMONIC_MEAN | MINIMUM

text \<open>
  The member \<^verbatim>\<open>d\<close> is a \<^verbatim>\<open>std::map\<close> from \<^verbatim>\<open>std::string\<close> to \<^verbatim>\<open>StatVector\<close>: a
  red-black tree whose keys are ordered by the comparison of \<^verbatim>\<open>std::string\<close>, which is
  lexicographic on the characters read as unsigned bytes.  That is the order of
  \<open>string\<close> here (\<open>Char_ord\<close> and \<open>List_Lexorder\<close>), and the tree is an \<open>rbt\<close>.
  The constructor initialises \<^verbatim>\<open>score_aggregate_method\<close> only, so the first content of
  \<^verbatim>\<open>num_frms\<close> is a parameter.
\<close>

record Result =
  d :: "(string, StatVector) rbt"
  score_aggregate_method :: ScoreAggregateMethod
  num_frms :: "32 word"

definition Result_new :: "32 word \<Rightarrow> Result" where
  "Result_new n0 = \<lparr>d = RBT.empty, score_aggregate_method = MEAN, num_frms = n0\<rparr>"

text \<open>
  \<^verbatim>\<open>d[key]\<close>: the element bound to the key; when there is none, a default-constructed
  \<^verbatim>\<open>StatVector\<close> is inserted first.  The function returns the element and the map after
  the access.
\<close>

definition map_subscript ::
  "(string, StatVector) rbt \<Rightarrow> string \<Rightarrow> StatVector \<times> (string, StatVector) rbt" where
  "map_subscript m key =
     (case RBT.lookup m key of
        Some v \<Rightarrow> (v, m)
      | None \<Rightarrow> (StatVector_empty, RBT.insert key StatVector_empty m))"

definition set_scores :: "Result \<Rightarrow> string \<Rightarrow> StatVector \<Rightarrow> Result" where
  "set_scores this key scores =
     (case map_subscript (d this) key of (_, m) \<Rightarrow> this\<lparr>d := RBT.insert key scores m\<rparr>)"

definition get_scores :: "Result \<Rightarrow> string \<Rightarrow> StatVector \<times> Result" where
  "get_scores this key = (case map_subscript (d this) key of (v, m) \<Rightarrow> (v, this\<lparr>d := m\<rparr>))"

definition has_scores :: "Result \<Rightarrow> string \<Rightarrow> bool" where
  "has_scores this key = (RBT.lookup (d this) key \<noteq> None)"

text \<open>
  \<^verbatim>\<open>get_score\<close> returns a \<^verbatim>\<open>double\<close> from each branch.  The results of \<^verbatim>\<open>minimum\<close> and
  \<^verbatim>\<open>mean\<close> are finite, and \<open>as_double\<close> reads them as values of \<open>double\<close>.
\<close>

definition as_double :: "cpp_exception + real \<Rightarrow> cpp_exception + double" where
  "as_double r = (case r of Inl ex \<Rightarrow> Inl ex | Inr x \<Rightarrow> Inr (Finite x))"

definition get_score :: "Result \<Rightarrow> string \<Rightarrow> (cpp_exception + double) \<times> Result" where
  "get_score this key =
     (case get_scores this key of
        (list, this') \<Rightarrow>
          (if score_aggregate_method this' = MINIMUM then (as_double (minimum list), this')
           else if score_aggregate_method this' = HARMONIC_MEAN then (harmonic_mean list, this')
           else (as_double (mean list), this')))"

definition get_keys :: "Result \<Rightarrow> string list" where
  "get_keys this = fold (\<lambda>it v. v @ [fst it]) (RBT.entries (d this)) []"

definition get_num_frms :: "Result \<Rightarrow> 32 word" where
  "get_num_frms this = num_frms this"

definition set_num_frms :: "Result \<Rightarrow> 32 word \<Rightarrow> Result" where
  "set_num_frms this n = this\<lparr>num_frms := n\<rparr>"

definition setScoreAggregateMethod :: "Result \<Rightarrow> ScoreAggregateMethod \<Rightarrow> Result" where
  "setScoreAggregateMethod this scoreAggregateMethod =
     this\<lparr>score_aggregate_method := scoreAggregateMethod\<rparr>"

subsection \<open>The runner factory\<close>

text \<open>
  The two runner classes and \<^verbatim>\<open>VmafModel\<close> are declared in headers that are not among
  the sources.  A runner is the class that was instantiated together with the argument
  its constructor received; of the model the factory reads the two members below.
  \<^verbatim>\<open>new\<close> allocates at an address that is not in use: the heap is the list of the objects
  allocated so far and the new address is its length.  The \<^verbatim>\<open>unique_ptr\<close> returned is that
  address.  The allocation and the constructors are taken to succeed.
\<close>

record VmafModel =
  path :: string
  enable_conf_interval :: bool

datatype IVmafQualityRunner = VmafQualityRunner string | BootstrapVmafQualityRunner string

type_synonym heap = "IVmafQualityRunner list"

definition new :: "heap \<Rightarrow> IVmafQualityRunner \<Rightarrow> nat \<times> heap" where
  "new h obj = (length h, h @ [obj])"

definition createVmafQualityRunner :: "heap \<Rightarrow> 'a VmafModel_scheme \<Rightarrow> nat \<times> heap" where
  "createVmafQualityRunner h vmaf_model =
     (if enable_conf_interval vmaf_model
      then new h (BootstrapVmafQualityRunner (path vmaf_model))
      else new h (VmafQualityRunner (path vmaf_model)))"

subsection \<open>The entry point\<close>

text \<open>
  Modelled from the spec: \<^verbatim>\<open>enum vmaf_cpu\<close> is declared in \<^verbatim>\<open>cpu.h\<close>, which is not among
  the sources; the spec describes it as an enumeration of the value "none" and the
  autodetected tiers.  The source names \<^verbatim>\<open>VMAF_CPU_NONE\<close> only.
\<close>

datatype vmaf_cpu = VMAF_CPU_NONE | VMAF_CPU_TIER nat

text \<open>
  \<^verbatim>\<open>VmafSettings\<close> is declared in \<^verbatim>\<open>libvmaf.h\<close>; the entry point reads \<^verbatim>\<open>disable_avx\<close>
  and forwards the rest.  The state the entry point acts on: the global \<^verbatim>\<open>cpu\<close>, the
  cell \<^verbatim>\<open>*vmaf_score\<close> of the caller, and the text written to the standard output, one
  entry for each \<^verbatim>\<open>printf\<close>.
\<close>

record VmafSettings =
  disable_avx :: bool

record world =
  cpu :: vmaf_cpu
  vmaf_score :: double
  stdout :: "string list"

definition newline :: string where
  "newline = [CHR 0x0A]"

text \<open>
  \<^verbatim>\<open>cpu_autodetect\<close> and \<^verbatim>\<open>RunVmaf\<close> are defined elsewhere, so they are parameters: the
  value the detection returns, and the engine as a function of the global \<^verbatim>\<open>cpu\<close> it
  reads and of its four arguments, which returns the score or the exception it throws.
  The result of \<^verbatim>\<open>compute_vmaf\<close> is \<open>Inr\<close> of the status it returns, or \<open>Inl\<close> of
  the exception that leaves it, beside the state after the call.
\<close>

definition compute_vmaf ::
  "vmaf_cpu \<Rightarrow>
   (vmaf_cpu \<Rightarrow> 'rf \<Rightarrow> 'rp \<Rightarrow> 'ud \<Rightarrow> 's VmafSettings_scheme \<Rightarrow> cpp_exception + double) \<Rightarrow>
   world \<Rightarrow> 'rf \<Rightarrow> 'rp \<Rightarrow> 'ud \<Rightarrow> 's VmafSettings_scheme \<Rightarrow> (cpp_exception + int) \<times> world" where
  "compute_vmaf cpu_autodetect RunVmaf w read_frame read_vmaf_picture user_data vmafSettings =
     (let w1 = w\<lparr>cpu := cpu_autodetect\<rparr>;
          w2 = (if disable_avx vmafSettings then w1\<lparr>cpu := VMAF_CPU_NONE\<rparr> else w1)
      in case RunVmaf (cpu w2) read_frame read_vmaf_picture user_data vmafSettings of
           Inr score \<Rightarrow> (Inr 0, w2\<lparr>vmaf_score := score\<rparr>)
         | Inl (VmafException msg) \<Rightarrow>
             (Inr (- 2), w2\<lparr>stdout := stdout w2 @ [''Caught VmafException: '' @ msg @ newline]\<rparr>)
         | Inl (Runtime_error msg) \<Rightarrow>
             (Inr (- 3), w2\<lparr>stdout := stdout w2 @ [''Caught runtime_error: '' @ msg @ newline]\<rparr>)
         | Inl (Logic_error msg) \<Rightarrow>
             (Inr (- 4), w2\<lparr>stdout := stdout w2 @ [''Caught logic_error: '' @ msg @ newline]\<rparr>)
         | Inl (Other_exception msg) \<Rightarrow> (Inl (Other_exception msg), w2))"

subsection \<open>The statistics as the specification words them\<close>






section \<open>The entry point and its status codes\<close>

text \<open>
  C1 (as amended).  For every invocation of \<^verbatim>\<open>compute_vmaf\<close>: the global \<^verbatim>\<open>cpu\<close> is the
  detected value, or \<^verbatim>\<open>VMAF_CPU_NONE\<close> when the settings disable AVX, and the engine runs
  under it.  If the engine returns a score, the score is written through the output
  pointer, nothing is printed and 0 is returned.  If the engine throws a
  \<^verbatim>\<open>VmafException\<close>, a \<^verbatim>\<open>std::runtime_error\<close> or a \<^verbatim>\<open>std::logic_error\<close>, the status is
  -2, -3 or -4 respectively, the output cell keeps its content, and one diagnostic with
  the text of \<^verbatim>\<open>what()\<close> is printed before returning.  An exception of any other type
  is not caught: it leaves the entry point as that exception, with the output cell
  unwritten and nothing printed.
\<close>

theorem compute_vmaf_outcomes:
  fixes RunVmaf :: "vmaf_cpu \<Rightarrow> 'rf \<Rightarrow> 'rp \<Rightarrow> 'ud \<Rightarrow> 's VmafSettings_scheme \<Rightarrow> cpp_exception + double"
  shows
  "(let cpu' = (if disable_avx vmafSettings then VMAF_CPU_NONE else cpu_autodetect);
        res = compute_vmaf cpu_autodetect RunVmaf w read_frame read_vmaf_picture user_data vmafSettings;
        status = fst res; w' = snd res
    in cpu w' = cpu' \<and>
       (case RunVmaf cpu' read_frame read_vmaf_picture user_data vmafSettings of
          Inr score \<Rightarrow> status = Inr 0 \<and> vmaf_score w' = score \<and> stdout w' = stdout w
        | Inl (VmafException msg) \<Rightarrow>
            status = Inr (- 2) \<and> vmaf_score w' = vmaf_score w \<and>
            stdout w' = stdout w @ [''Caught VmafException: '' @ msg @ newline]
        | Inl (Runtime_error msg) \<Rightarrow>
            status = Inr (- 3) \<and> vmaf_score w' = vmaf_score w \<and>
            stdout w' = stdout w @ [''Caught runtime_error: '' @ msg @ newline]
        | Inl (Logic_error msg) \<Rightarrow>
            status = Inr (- 4) \<and> vmaf_score w' = vmaf_score w \<and>
            stdout w' = stdout w @ [''Caught logic_error: '' @ msg @ newline]
        | Inl (Other_exception msg) \<Rightarrow>
            status = Inl (Other_exception msg) \<and> vmaf_score w' = vmaf_score w \<and>
            stdout w' = stdout w))"
  by (simp add: compute_vmaf_def Let_def split: sum.split cpp_exception.split)

text \<open>
  An instance of C1: the engine throws the \<^verbatim>\<open>std::runtime_error\<close> of an empty series,
  with AVX disabled; the status is -3.
\<close>

theorem compute_vmaf_outcomes_witness:
  "fst (compute_vmaf (VMAF_CPU_TIER 1) (\<lambda>c rf rp ud s. Inl (Runtime_error ''StatVector size is 0.''))
          \<lparr>cpu = VMAF_CPU_NONE, vmaf_score = Finite 0, stdout = []\<rparr> () () ()
          \<lparr>disable_avx = True\<rparr>) = Inr (- 3)"
  using compute_vmaf_outcomes [of "\<lparr>disable_avx = True\<rparr>" "VMAF_CPU_TIER 1"
     "\<lambda>c rf rp ud s. Inl (Runtime_error ''StatVector size is 0.'')"
     "\<lparr>cpu = VMAF_CPU_NONE, vmaf_score = Finite 0, stdout = []\<rparr>" "()" "()" "()"]
  by (simp add: Let_def)

text \<open>
  C1 as stated fails: it says that no failure leaves the entry point as anything but an
  integer status.  The three handlers cover three classes; when the engine throws
  anything else, here a \<^verbatim>\<open>std::bad_alloc\<close>, the exception leaves \<^verbatim>\<open>compute_vmaf\<close>.
\<close>

theorem compute_vmaf_bad_alloc_propagates:
  "fst (compute_vmaf (VMAF_CPU_TIER 1) (\<lambda>c rf rp ud s. Inl (Other_exception ''std::bad_alloc''))
          \<lparr>cpu = VMAF_CPU_NONE, vmaf_score = Finite 0, stdout = []\<rparr> () () ()
          \<lparr>disable_avx = False\<rparr>)
     = Inl (Other_exception ''std::bad_alloc'')"
  by (simp add: compute_vmaf_def)

section \<open>Statistics of the empty series\<close>

lemma assert_size_empty:
  "assert_size \<lparr>l = []\<rparr> = Inl (Runtime_error ''StatVector size is 0.'')"
  by (simp add: assert_size_def size_sv_def)

text \<open>
  C6.  On the empty series each of \<^verbatim>\<open>mean\<close>, \<^verbatim>\<open>minimum\<close>, \<^verbatim>\<open>harmonic_mean\<close>,
  \<^verbatim>\<open>second_moment\<close>, \<^verbatim>\<open>var\<close>, \<^verbatim>\<open>std\<close> and \<^verbatim>\<open>percentile\<close> (for every argument) throws the
  \<^verbatim>\<open>std::runtime_error\<close> "StatVector size is 0." and returns no value; \<^verbatim>\<open>size\<close> returns 0
  and \<^verbatim>\<open>append\<close> succeeds.  The error is of the runtime-error class, not a
  \<^verbatim>\<open>VmafException\<close>: when it reaches the entry point the status is -3, not -2.
\<close>

theorem empty_series_statistics_throw:
  "mean \<lparr>l = []\<rparr> = Inl (Runtime_error ''StatVector size is 0.'') \<and>
   minimum \<lparr>l = []\<rparr> = Inl (Runtime_error ''StatVector size is 0.'') \<and>
   harmonic_mean \<lparr>l = []\<rparr> = Inl (Runtime_error ''StatVector size is 0.'') \<and>
   second_moment \<lparr>l = []\<rparr> = Inl (Runtime_error ''StatVector size is 0.'') \<and>
   var \<lparr>l = []\<rparr> = Inl (Runtime_error ''StatVector size is 0.'') \<and>
   std \<lparr>l = []\<rparr> = Inl (Runtime_error ''StatVector size is 0.'') \<and>
   (\<forall>p. fst (percentile \<lparr>l = []\<rparr> p) = Inl (Throws (Runtime_error ''StatVector size is 0.''))) \<and>
   size_sv \<lparr>l = []\<rparr> = 0 \<and>
   (\<forall>e. append_sv \<lparr>l = []\<rparr> e = \<lparr>l = [e]\<rparr>) \<and>
   (\<forall>det w rf rp ud s.
      fst (compute_vmaf det (\<lambda>c rf rp ud s. Inl (Runtime_error ''StatVector size is 0.'')) w
             (rf :: unit) (rp :: unit) (ud :: unit) (s :: VmafSettings)) = Inr (- 3))"
  by (simp add: mean_def minimum_def harmonic_mean_def second_moment_def var_def std_def
      percentile_def assert_size_empty size_sv_def append_sv_def compute_vmaf_def Let_def)

section \<open>The keys of a result\<close>

lemma fold_push_back: "fold (\<lambda>it v. v @ [fst it]) xs acc = acc @ map fst xs"
  by (induction xs arbitrary: acc) simp_all

lemma get_keys_keys: "get_keys this = RBT.keys (d this)"
  by (simp add: get_keys_def fold_push_back RBT.keys_def_alt)

lemma mem_keys_lookup: "key \<in> set (RBT.keys t) \<longleftrightarrow> RBT.lookup t key \<noteq> None"
  using RBT.lookup_keys [of t] by auto

text \<open>
  C10.  For every result, \<^verbatim>\<open>get_keys\<close> returns the metric names in strictly ascending
  lexicographic order, without duplicates, and the list holds exactly the keys that have
  an entry in the map (those for which \<^verbatim>\<open>has_scores\<close> is true).
\<close>

theorem get_keys_ascending:
  "sorted_wrt (<) (get_keys this) \<and>
   distinct (get_keys this) \<and>
   (\<forall>key. key \<in> set (get_keys this) \<longleftrightarrow> has_scores this key) \<and>
   (\<forall>key. key \<in> set (get_keys this) \<longleftrightarrow> (\<exists>v. (key, v) \<in> set (RBT.entries (d this))))"
proof -
  have "sorted_wrt (<) (RBT.keys (d this))"
    by (simp add: strict_sorted_iff)
  moreover have "\<forall>key. key \<in> set (RBT.keys (d this)) \<longleftrightarrow> has_scores this key"
    by (simp add: has_scores_def mem_keys_lookup)
  ultimately show ?thesis
    by (simp add: get_keys_keys RBT.keys_entries)
qed

text \<open>
  An instance of C10: three metrics set in the order vmaf, adm2, psnr are listed as
  adm2, psnr, vmaf.
\<close>

theorem get_keys_ascending_witness:
  "get_keys (set_scores (set_scores (set_scores (Result_new 0) ''vmaf'' \<lparr>l = [1]\<rparr>)
      ''adm2'' \<lparr>l = [2]\<rparr>) ''psnr'' \<lparr>l = [3]\<rparr>) = [''adm2'', ''psnr'', ''vmaf''] \<and>
   sorted_wrt (<) (get_keys (set_scores (set_scores (set_scores (Result_new 0) ''vmaf'' \<lparr>l = [1]\<rparr>)
      ''adm2'' \<lparr>l = [2]\<rparr>) ''psnr'' \<lparr>l = [3]\<rparr>))"
proof -
  have "get_keys (set_scores (set_scores (set_scores (Result_new 0) ''vmaf'' \<lparr>l = [1]\<rparr>)
      ''adm2'' \<lparr>l = [2]\<rparr>) ''psnr'' \<lparr>l = [3]\<rparr>) = [''adm2'', ''psnr'', ''vmaf'']"
    by code_simp
  with get_keys_ascending [of "set_scores (set_scores (set_scores (Result_new 0) ''vmaf'' \<lparr>l = [1]\<rparr>)
      ''adm2'' \<lparr>l = [2]\<rparr>) ''psnr'' \<lparr>l = [3]\<rparr>"]
  show ?thesis by blast
qed

section \<open>Reading the scores of a key that was never set\<close>

text \<open>
  C9.  When \<^verbatim>\<open>get_scores\<close> is called for a key that has no entry, it does not fail: it
  returns the default-constructed (empty) series, and the result afterwards has an entry
  for the key, bound to the empty series, so \<^verbatim>\<open>has_scores\<close> is true for it and it is in
  \<^verbatim>\<open>get_keys\<close>.  The other entries, the policy and the frame count are unchanged.
\<close>

theorem get_scores_unset_key_inserts:
  assumes "\<not> has_scores this key"
  shows "fst (get_scores this key) = StatVector_empty \<and>
         size_sv (fst (get_scores this key)) = 0 \<and>
         has_scores (snd (get_scores this key)) key \<and>
         key \<in> set (get_keys (snd (get_scores this key))) \<and>
         RBT.lookup (d (snd (get_scores this key))) key = Some StatVector_empty \<and>
         (\<forall>k. k \<noteq> key \<longrightarrow> RBT.lookup (d (snd (get_scores this key))) k = RBT.lookup (d this) k) \<and>
         score_aggregate_method (snd (get_scores this key)) = score_aggregate_method this \<and>
         num_frms (snd (get_scores this key)) = num_frms this"
  using assms
  by (simp add: get_scores_def map_subscript_def has_scores_def get_keys_keys mem_keys_lookup
        StatVector_empty_def size_sv_def)

text \<open>
  An instance of C9: a new result has no key; after \<^verbatim>\<open>get_scores\<close> for "vmaf" the key is
  present.
\<close>

theorem get_scores_unset_key_inserts_witness:
  "\<not> has_scores (Result_new 0) ''vmaf'' \<and>
   get_keys (Result_new 0) = [] \<and>
   fst (get_scores (Result_new 0) ''vmaf'') = \<lparr>l = []\<rparr> \<and>
   has_scores (snd (get_scores (Result_new 0) ''vmaf'')) ''vmaf'' \<and>
   ''vmaf'' \<in> set (get_keys (snd (get_scores (Result_new 0) ''vmaf'')))"
proof -
  have h: "\<not> has_scores (Result_new 0) ''vmaf''"
    by (simp add: has_scores_def Result_new_def)
  have k: "get_keys (Result_new 0) = []"
    by (simp add: get_keys_keys Result_new_def)
  from get_scores_unset_key_inserts [OF h] h k show ?thesis
    by (simp add: StatVector_empty_def)
qed

section \<open>Minimum, mean and the aggregated score\<close>





lemma get_score_bound:
  assumes "RBT.lookup (d this) key = Some series"
  shows "get_score this key =
          ((case score_aggregate_method this of
              MINIMUM \<Rightarrow> as_double (minimum series)
            | HARMONIC_MEAN \<Rightarrow> harmonic_mean series
            | MEAN \<Rightarrow> as_double (mean series)), this)"
  using assms
  by (cases "score_aggregate_method this")
     (simp_all add: get_score_def get_scores_def map_subscript_def)

lemma policy_set_scores:
  "score_aggregate_method (set_scores this key scores) = score_aggregate_method this"
  by (simp add: set_scores_def split: prod.split)

lemma lookup_set_scores: "RBT.lookup (d (set_scores this key scores)) key = Some scores"
  by (simp add: set_scores_def map_subscript_def split: option.split)

text \<open>
  C7.  For every result and every key bound to a series, \<^verbatim>\<open>get_score\<close> returns
  \<^verbatim>\<open>minimum\<close> of the series under the policy MINIMUM, \<^verbatim>\<open>harmonic_mean\<close> under
  HARMONIC_MEAN and \<^verbatim>\<open>mean\<close> under MEAN, and leaves the result as it was; when the series
  is empty it throws the error of the empty series.  A newly constructed result has the
  policy MEAN.  On the series 3, 1, 2 the score is 1 under MINIMUM and 2 under MEAN.
\<close>

theorem get_score_policy:
  "(RBT.lookup (d this) key = Some series \<longrightarrow>
      fst (get_score this key) =
        (case score_aggregate_method this of
           MINIMUM \<Rightarrow> as_double (minimum series)
         | HARMONIC_MEAN \<Rightarrow> harmonic_mean series
         | MEAN \<Rightarrow> as_double (mean series)) \<and>
      snd (get_score this key) = this \<and>
      (l series = [] \<longrightarrow> fst (get_score this key) = Inl (Runtime_error ''StatVector size is 0.''))) \<and>
   score_aggregate_method (Result_new n) = MEAN \<and>
   fst (get_score (setScoreAggregateMethod (set_scores (Result_new n) k \<lparr>l = [3, 1, 2]\<rparr>) MINIMUM) k)
     = Inr (Finite 1) \<and>
   fst (get_score (set_scores (Result_new n) k \<lparr>l = [3, 1, 2]\<rparr>) k) = Inr (Finite 2)"
proof -
  have a: "RBT.lookup (d this) key = Some series \<longrightarrow>
      fst (get_score this key) =
        (case score_aggregate_method this of
           MINIMUM \<Rightarrow> as_double (minimum series)
         | HARMONIC_MEAN \<Rightarrow> harmonic_mean series
         | MEAN \<Rightarrow> as_double (mean series)) \<and>
      snd (get_score this key) = this"
    by (simp add: get_score_bound)
  have b: "l series = [] \<longrightarrow>
      (case score_aggregate_method this of
           MINIMUM \<Rightarrow> as_double (minimum series)
         | HARMONIC_MEAN \<Rightarrow> harmonic_mean series
         | MEAN \<Rightarrow> as_double (mean series)) = Inl (Runtime_error ''StatVector size is 0.'')"
    by (cases "score_aggregate_method this")
       (simp_all add: as_double_def minimum_def harmonic_mean_def mean_def assert_size_def size_sv_def)
  have c: "score_aggregate_method (Result_new n) = MEAN"
    by (simp add: Result_new_def)
  have m: "minimum \<lparr>l = [3, 1, 2]\<rparr> = Inr 1"
    by (simp add: minimum_def assert_size_def size_sv_def)
  have e: "mean \<lparr>l = [3, 1, 2]\<rparr> = Inr 2"
    by (simp add: mean_def assert_size_def size_sv_def)
  have f: "fst (get_score (setScoreAggregateMethod (set_scores (Result_new n) k \<lparr>l = [3, 1, 2]\<rparr>) MINIMUM) k)
     = Inr (Finite 1)"
    using get_score_bound [of "setScoreAggregateMethod (set_scores (Result_new n) k \<lparr>l = [3, 1, 2]\<rparr>) MINIMUM"
        k "\<lparr>l = [3, 1, 2]\<rparr>"]
    by (simp add: setScoreAggregateMethod_def lookup_set_scores policy_set_scores m as_double_def)
  have g: "fst (get_score (set_scores (Result_new n) k \<lparr>l = [3, 1, 2]\<rparr>) k) = Inr (Finite 2)"
    using get_score_bound [of "set_scores (Result_new n) k \<lparr>l = [3, 1, 2]\<rparr>" k "\<lparr>l = [3, 1, 2]\<rparr>"]
    by (simp add: lookup_set_scores policy_set_scores e as_double_def Result_new_def)
  from a b c f g show ?thesis by simp
qed

text \<open>
  An instance of C7: the key "vmaf" bound to 3, 1, 2 under HARMONIC_MEAN.  The
  reciprocals 1/4, 1/2 and 1/3 have the average 13/36, so the score is 36/13 - 1.
\<close>

theorem get_score_policy_witness:
  "RBT.lookup (d (setScoreAggregateMethod (set_scores (Result_new 0) ''vmaf'' \<lparr>l = [3, 1, 2]\<rparr>) HARMONIC_MEAN))
      ''vmaf'' = Some \<lparr>l = [3, 1, 2]\<rparr> \<and>
   fst (get_score (setScoreAggregateMethod (set_scores (Result_new 0) ''vmaf'' \<lparr>l = [3, 1, 2]\<rparr>) HARMONIC_MEAN)
      ''vmaf'') = Inr (Finite (23 / 13))"
proof -
  have h: "RBT.lookup (d (setScoreAggregateMethod (set_scores (Result_new 0) ''vmaf'' \<lparr>l = [3, 1, 2]\<rparr>) HARMONIC_MEAN))
      ''vmaf'' = Some \<lparr>l = [3, 1, 2]\<rparr>"
    by (simp add: setScoreAggregateMethod_def lookup_set_scores)
  have v: "harmonic_mean \<lparr>l = [3, 1, 2]\<rparr> = Inr (Finite (23 / 13))"
    by (simp add: harmonic_mean_def assert_size_def size_sv_def dsub_def)
  from get_score_policy [of "setScoreAggregateMethod (set_scores (Result_new 0) ''vmaf'' \<lparr>l = [3, 1, 2]\<rparr>) HARMONIC_MEAN"
      "''vmaf''" "\<lparr>l = [3, 1, 2]\<rparr>"] h v
  show ?thesis by (simp add: setScoreAggregateMethod_def)
qed

section \<open>The runner factory\<close>

text \<open>
  C8.  For every model descriptor and every heap, the factory allocates one runner at a
  fresh address and returns that address; the objects allocated before are untouched, so
  the caller holds the only reference to the new runner.  The runner is the bootstrap
  variant if and only if the confidence-interval flag of the descriptor is true, and the
  standard variant otherwise; its constructor received the path of the descriptor,
  whatever the path is.
\<close>

theorem createVmafQualityRunner_selects:
  "(let r = createVmafQualityRunner h vmaf_model; ptr = fst r; h' = snd r
    in ptr = length h \<and>
       take (length h) h' = h \<and>
       length h' = Suc (length h) \<and>
       h' ! ptr = (if enable_conf_interval vmaf_model
                   then BootstrapVmafQualityRunner (path vmaf_model)
                   else VmafQualityRunner (path vmaf_model)) \<and>
       ((\<exists>p. h' ! ptr = BootstrapVmafQualityRunner p) \<longleftrightarrow> enable_conf_interval vmaf_model) \<and>
       ((\<exists>p. h' ! ptr = VmafQualityRunner p) \<longleftrightarrow> \<not> enable_conf_interval vmaf_model))"
  by (simp add: createVmafQualityRunner_def new_def Let_def)

text \<open>
  An instance of C8 with the empty path: the flag set gives the bootstrap runner at
  address 0, and a second call with the flag clear gives the standard runner at address 1.
\<close>

theorem createVmafQualityRunner_selects_witness:
  "createVmafQualityRunner [] \<lparr>path = '''', enable_conf_interval = True\<rparr> = (0, [BootstrapVmafQualityRunner ''''])
   \<and> createVmafQualityRunner [BootstrapVmafQualityRunner ''''] \<lparr>path = '''', enable_conf_interval = False\<rparr>
       = (1, [BootstrapVmafQualityRunner '''', VmafQualityRunner ''''])"
  using createVmafQualityRunner_selects [of "[]" "\<lparr>path = '''', enable_conf_interval = True\<rparr>"]
  by (simp add: createVmafQualityRunner_def new_def)

section \<open>Percentiles\<close>



















section \<open>The harmonic mean\<close>











text \<open>
  Outside the hypotheses of the second part the source still returns a value: on -1, 0 the
  first reciprocal is infinite, so is the average, and the result is \<open>0 - 1\<close>.
\<close>

lemma harmonic_mean_passes_infinity:
  "harmonic_mean \<lparr>l = [- 1, 0]\<rparr> = Inr (Finite (- 1))"
  by (simp add: harmonic_mean_def assert_size_def size_sv_def dsub_def)

section \<open>Variance and standard deviation\<close>







end
